theory Spec2Isabelle
  imports Complex_Main "HOL-Library.Signed_Division"
begin

section \<open>Floating-point values\<close>

text \<open>
  The firmware computes in C \<open>float\<close>/\<open>double\<close>.  The model keeps the IEEE special values
  (the infinities and NaN, which division by zero produces instead of trapping) and
  computes finite values in exact real arithmetic: rounding to the binary format and
  overflow of the exponent range are not modelled, and zero carries no sign (every zero
  that is used as a divisor in the firmware is the result of a subtraction or of
  \<open>0 / 1024.0 * 5.0\<close>, hence a positive zero).
\<close>

datatype flt = Fin real | PInf | NInf | NaN

fun fneg :: "flt \<Rightarrow> flt" where
  "fneg (Fin a) = Fin (- a)"
| "fneg PInf = NInf"
| "fneg NInf = PInf"
| "fneg NaN = NaN"

fun fadd :: "flt \<Rightarrow> flt \<Rightarrow> flt" where
  "fadd (Fin a) (Fin b) = Fin (a + b)"
| "fadd NaN _ = NaN"
| "fadd _ NaN = NaN"
| "fadd PInf NInf = NaN"
| "fadd NInf PInf = NaN"
| "fadd PInf _ = PInf"
| "fadd NInf _ = NInf"
| "fadd _ PInf = PInf"
| "fadd _ NInf = NInf"

definition fsub :: "flt \<Rightarrow> flt \<Rightarrow> flt" where
  "fsub a b = fadd a (fneg b)"

fun fmul :: "flt \<Rightarrow> flt \<Rightarrow> flt" where
  "fmul (Fin a) (Fin b) = Fin (a * b)"
| "fmul NaN _ = NaN"
| "fmul _ NaN = NaN"
| "fmul PInf (Fin b) = (if b = 0 then NaN else if 0 < b then PInf else NInf)"
| "fmul NInf (Fin b) = (if b = 0 then NaN else if 0 < b then NInf else PInf)"
| "fmul (Fin a) PInf = (if a = 0 then NaN else if 0 < a then PInf else NInf)"
| "fmul (Fin a) NInf = (if a = 0 then NaN else if 0 < a then NInf else PInf)"
| "fmul PInf PInf = PInf"
| "fmul PInf NInf = NInf"
| "fmul NInf PInf = NInf"
| "fmul NInf NInf = PInf"

fun fdiv :: "flt \<Rightarrow> flt \<Rightarrow> flt" where
  "fdiv (Fin a) (Fin b) =
     (if b = 0 then (if a = 0 then NaN else if 0 < a then PInf else NInf)
      else Fin (a / b))"
| "fdiv NaN _ = NaN"
| "fdiv _ NaN = NaN"
| "fdiv (Fin a) PInf = Fin 0"
| "fdiv (Fin a) NInf = Fin 0"
| "fdiv PInf (Fin b) = (if 0 \<le> b then PInf else NInf)"
| "fdiv NInf (Fin b) = (if 0 \<le> b then NInf else PInf)"
| "fdiv PInf PInf = NaN"
| "fdiv PInf NInf = NaN"
| "fdiv NInf PInf = NaN"
| "fdiv NInf NInf = NaN"

fun fless :: "flt \<Rightarrow> flt \<Rightarrow> bool" where
  "fless (Fin a) (Fin b) = (a < b)"
| "fless NaN _ = False"
| "fless _ NaN = False"
| "fless NInf NInf = False"
| "fless NInf _ = True"
| "fless _ NInf = False"
| "fless PInf _ = False"
| "fless _ PInf = True"

section \<open>ADC reading to resistance\<close>

definition VIN :: flt where "VIN = Fin 5.0"
definition R2 :: flt where "R2 = Fin 10000.0"

text \<open>\<open>double Vtherm = reading / 1024.0 * VIN;\<close> where \<open>reading\<close> is the result of
  \<open>analogRead(channel)\<close>.\<close>

definition Vtherm :: "int \<Rightarrow> flt" where
  "Vtherm reading = fmul (fdiv (Fin (of_int reading)) (Fin 1024.0)) VIN"

text \<open>\<open>double resistance = R2 / (VIN / Vtherm - 1);\<close>\<close>

definition readResistorOhms :: "int \<Rightarrow> flt" where
  "readResistorOhms reading = fdiv R2 (fsub (fdiv VIN (Vtherm reading)) (Fin 1))"

section \<open>Resistance to temperature\<close>

text \<open>\<open>#define START 2\<close> is the pin of the start/stop button; \<open>END\<close> and
  \<open>TEMP_OFFSET\<close> are the local constants of \<open>readThermistorValue\<close>.\<close>

definition START :: nat where "START = 2"
definition END :: nat where "END = 380"
definition TEMP_OFFSET :: int where "TEMP_OFFSET = - 80"

text \<open>The calibration table \<open>TempToOhms\<close> comes from the header
  \<open>Thermistor-103J-G1J.h\<close>; its entries are left open here: every function that reads
  the table takes it as the parameter \<open>tbl\<close>, a list of finite resistances.
  \<open>pgm_read_float(&TempToOhms[i])\<close> reads entry \<open>i\<close>; the scan only reads indices below
  \<open>END\<close>, inside a table of \<open>END\<close> entries.\<close>

definition pgm_read_float :: "real list \<Rightarrow> nat \<Rightarrow> flt" where
  "pgm_read_float tbl i = Fin (tbl ! i)"

text \<open>The firmware's own \<open>map\<close> for floats:
  \<open>(x - in_min) * (out_max - out_min) / (in_max - in_min) + out_min\<close>.\<close>

definition map_float :: "flt \<Rightarrow> flt \<Rightarrow> flt \<Rightarrow> flt \<Rightarrow> flt \<Rightarrow> flt" where
  "map_float x in_min in_max out_min out_max =
     fadd (fdiv (fmul (fsub x in_min) (fsub out_max out_min)) (fsub in_max in_min)) out_min"

text \<open>The \<open>for\<close> loop of \<open>readThermistorValue\<close>, from loop index \<open>i\<close> on: the first entry
  below \<open>r\<close> ends the loop with the interpolated value; when the loop runs out, \<open>temp\<close>
  still holds its initial value \<open>-9999.0\<close>.\<close>

function scanTable :: "real list \<Rightarrow> flt \<Rightarrow> nat \<Rightarrow> flt" where
  "scanTable tbl r i =
     (if i < END then
        (let currentTemp = pgm_read_float tbl i in
         if fless currentTemp r then
           (let lastTemp = pgm_read_float tbl (i - 1) in
            fadd (map_float r lastTemp currentTemp (fsub (Fin (real i)) (Fin 1.0)) (Fin (real i)))
                 (Fin (of_int TEMP_OFFSET)))
         else scanTable tbl r (i + 1))
      else Fin (- 9999.0))"
  by pat_completeness auto
termination
  by (relation "measure (\<lambda>(tbl, r, i). END - i)") auto

text \<open>The body of \<open>readThermistorValue\<close> once the resistance \<open>r\<close> is known: the loop starts
  at \<open>START + 1\<close>.\<close>

definition thermistorValueOfOhms :: "real list \<Rightarrow> flt \<Rightarrow> flt" where
  "thermistorValueOfOhms tbl r = scanTable tbl r (START + 1)"

definition readThermistorValue :: "real list \<Rightarrow> int \<Rightarrow> flt" where
  "readThermistorValue tbl reading = thermistorValueOfOhms tbl (readResistorOhms reading)"

text \<open>The value the loop produces when it stops at index \<open>i\<close>, in real arithmetic.\<close>

definition interpolate :: "real list \<Rightarrow> real \<Rightarrow> nat \<Rightarrow> real" where
  "interpolate tbl r i =
     (r - tbl ! (i - 1)) * (real i - (real i - 1)) / (tbl ! i - tbl ! (i - 1)) + (real i - 1)
       + of_int TEMP_OFFSET"

text \<open>Modelled from the spec: the entries of \<open>TempToOhms\<close> (the header that holds them is
  left open, see above) are, in the specification's words, monotonically decreasing in
  resistance as the index increases, for the indices 0 to 379.\<close>

definition decreasing :: "real list \<Rightarrow> bool" where
  "decreasing tbl = sorted_wrt (\<lambda>a b. b < a) tbl"

text \<open>A calibration table of that shape (\<open>END\<close> entries, strictly decreasing), steep at
  the cold end as a thermistor's is; all its entries are exact in binary floating
  point.\<close>

definition sampleTable :: "real list" where
  "sampleTable = 40000 # 20000 # 8000 # 4000 # map (\<lambda>k. 3999 - real k) [0..<376]"

section \<open>Formatted output\<close>

text \<open>The part of \<open>snprintf\<close> the firmware uses: the conversions \<open>%d\<close>, \<open>%Wd\<close> (padded
  with spaces on the left to width \<open>W\<close>) and \<open>%0Wd\<close> (padded with zeros after the sign),
  with a one-digit width; every other character is copied.  The arguments are C \<open>int\<close>s.
  A format outside this part, or one with too few arguments, ends the output.\<close>

fun dec :: "nat \<Rightarrow> string" where
  "dec n = (if n < 10 then [''0123456789'' ! n] else dec (n div 10) @ [''0123456789'' ! (n mod 10)])"

definition conv_d :: "bool \<Rightarrow> nat \<Rightarrow> int \<Rightarrow> string" where
  "conv_d zero width v =
     (let sign = (if v < 0 then ''-'' else []);
          digits = dec (nat \<bar>v\<bar>);
          pad = width - (length sign + length digits)
      in if zero then sign @ replicate pad (CHR ''0'') @ digits
         else replicate pad (CHR '' '') @ sign @ digits)"

definition digit_val :: "char \<Rightarrow> nat" where
  "digit_val c = of_char c - 48"

fun printf :: "string \<Rightarrow> int list \<Rightarrow> string" where
  "printf [] args = []"
| "printf (c # fs) args =
     (if c \<noteq> CHR ''%'' then c # printf fs args
      else case fs of
        [] \<Rightarrow> []
      | d # fs1 \<Rightarrow>
          (case args of
             [] \<Rightarrow> []
           | a # args1 \<Rightarrow>
               if d = CHR ''d'' then conv_d False 0 a @ printf fs1 args1
               else if d = CHR ''0'' then
                 (case fs1 of
                    w # e # fs3 \<Rightarrow>
                      if e = CHR ''d'' then conv_d True (digit_val w) a @ printf fs3 args1 else []
                  | _ \<Rightarrow> [])
               else
                 (case fs1 of
                    e # fs2 \<Rightarrow>
                      if e = CHR ''d'' then conv_d False (digit_val d) a @ printf fs2 args1 else []
                  | _ \<Rightarrow> [])))"

definition LINE_LEN :: nat where "LINE_LEN = 80"

text \<open>\<open>snprintf(buffer, n, fmt, ...)\<close> stores at most \<open>n - 1\<close> characters.\<close>

definition snprintf :: "nat \<Rightarrow> string \<Rightarrow> int list \<Rightarrow> string" where
  "snprintf n fmt args = take (n - 1) (printf fmt args)"

section \<open>The logger\<close>

text \<open>The two sketches of the repository: \<open>Firmware/TemperatureLogger/TemperatureLogger.ino\<close>
  and a second sketch of the same logger.  They share the conversions above and differ in the record
  and file-name formats, in the LED handling and in the initial value of \<open>_logging\<close>.\<close>

datatype firmware = TemperatureLogger | SecondSketch

record DateTime =
  month :: nat
  day :: nat
  hour :: nat
  minute :: nat
  second :: nat

text \<open>The global state: the flags \<open>_triggered\<close> and \<open>_logging\<close>, the file handle \<open>_myFile\<close>
  (the name of the open file, \<open>None\<close> for a handle that is not open), the level of the LED
  pin, the lines written to \<open>Serial\<close> (a \<open>print\<close> followed by a \<open>println\<close> makes one line)
  and the files of the SD card as lists of lines.  Calls of \<open>delay\<close> are not modelled.\<close>

record state =
  triggered :: bool
  logging :: bool
  myFile :: "string option"
  led :: bool
  serial :: "string list"
  sd :: "string \<Rightarrow> string list option"

text \<open>What one pass of \<open>loop\<close> reads from the hardware: the three \<open>analogRead\<close> results, the
  clock at the \<open>_rtc.now()\<close> of \<open>startLog\<close> and of \<open>logData\<close>, and whether \<open>SD.open\<close>
  succeeds.\<close>

record inputs =
  a0 :: int
  a1 :: int
  a2 :: int
  now_start :: DateTime
  now_log :: DateTime
  open_ok :: bool

definition digitalWrite :: "bool \<Rightarrow> state \<Rightarrow> state" where
  "digitalWrite level s = s\<lparr>led := level\<rparr>"

definition Serial_println :: "string \<Rightarrow> state \<Rightarrow> state" where
  "Serial_println line s = s\<lparr>serial := serial s @ [line]\<rparr>"

text \<open>\<open>_myFile.println(buffer)\<close>: a line is appended to the file of an open handle; on a
  handle that is not open nothing is written.\<close>

definition file_lines :: "(string \<Rightarrow> string list option) \<Rightarrow> string \<Rightarrow> string list" where
  "file_lines files f = (case files f of None \<Rightarrow> [] | Some ls \<Rightarrow> ls)"

definition File_println :: "string \<Rightarrow> state \<Rightarrow> state" where
  "File_println line s =
     (case myFile s of
        None \<Rightarrow> s
      | Some f \<Rightarrow> s\<lparr>sd := (sd s)(f \<mapsto> file_lines (sd s) f @ [line])\<rparr>)"

text \<open>\<open>SD.open(name, FILE_WRITE)\<close>: on success the file exists (created empty when it
  did not) and the handle is open for appending; on failure the handle is not open.\<close>

definition SD_open :: "bool \<Rightarrow> string \<Rightarrow> state \<Rightarrow> state" where
  "SD_open ok name s =
     (if ok then s\<lparr>myFile := Some name, sd := (sd s)(name \<mapsto> file_lines (sd s) name)\<rparr>
      else s\<lparr>myFile := None\<rparr>)"

text \<open>The file name \<open>startLog\<close> formats from the clock.\<close>

definition log_name :: "firmware \<Rightarrow> DateTime \<Rightarrow> string" where
  "log_name fw now =
     (case fw of
        TemperatureLogger \<Rightarrow>
          snprintf LINE_LEN ''%02dT%02d%02d.csv''
            [int (day now), int (hour now), int (minute now)]
      | SecondSketch \<Rightarrow>
          snprintf LINE_LEN ''%02d-%02dT%02d-%02d.txt''
            [int (month now), int (day now), int (hour now), int (minute now)])"

definition startLog :: "firmware \<Rightarrow> DateTime \<Rightarrow> bool \<Rightarrow> state \<Rightarrow> state" where
  "startLog fw now ok s =
     (let buffer = log_name fw now;
          s1 = Serial_println (''Recording started: '' @ buffer) s
      in SD_open ok buffer s1)"

definition stopLog :: "state \<Rightarrow> state" where
  "stopLog s = Serial_println ''Recording stopped'' (s\<lparr>myFile := None\<rparr>)"

text \<open>The line \<open>logData\<close> formats; \<open>/\<close> and \<open>%\<close> on C \<open>int\<close>s truncate toward zero.\<close>

definition record_line :: "firmware \<Rightarrow> DateTime \<Rightarrow> int \<Rightarrow> int \<Rightarrow> int \<Rightarrow> string" where
  "record_line fw timeNow v1 v2 v3 =
     snprintf LINE_LEN
       (case fw of
          TemperatureLogger \<Rightarrow> ''%02d:%02d:%02d,%d.%d,%d.%d,%d.%d''
        | SecondSketch \<Rightarrow> ''%02d:%02d:%02d,%3d.%dC,%3d.%dC,%3d.%dC'')
       [int (hour timeNow), int (minute timeNow), int (second timeNow),
        v1 sdiv 100, \<bar>v1 smod 100\<bar>, v2 sdiv 100, \<bar>v2 smod 100\<bar>, v3 sdiv 100, \<bar>v3 smod 100\<bar>]"

definition logData :: "firmware \<Rightarrow> DateTime \<Rightarrow> int \<Rightarrow> int \<Rightarrow> int \<Rightarrow> state \<Rightarrow> state" where
  "logData fw timeNow v1 v2 v3 s =
     (let buffer = record_line fw timeNow v1 v2 v3;
          s1 = (if logging s then
                  (case fw of
                     TemperatureLogger \<Rightarrow>
                       digitalWrite True (digitalWrite False (File_println buffer s))
                   | SecondSketch \<Rightarrow> File_println buffer s)
                else s)
      in Serial_println buffer s1)"

text \<open>The interrupt handler of the button.\<close>

definition logIsr :: "firmware \<Rightarrow> state \<Rightarrow> state" where
  "logIsr fw s =
     (let s1 = s\<lparr>triggered := True\<rparr>
      in case fw of
           TemperatureLogger \<Rightarrow> (if \<not> logging s1 then digitalWrite False s1 else s1)
         | SecondSketch \<Rightarrow> s1)"

text \<open>The conversion of a \<open>float\<close> argument to the \<open>int\<close> parameter of \<open>logData\<close>
  (16 bits on the AVR boards the sketches are written for): truncation toward zero when
  the truncated value fits, undefined in C otherwise; \<open>undef\<close> stands for what the
  platform does then.\<close>

definition float_to_int :: "(flt \<Rightarrow> int) \<Rightarrow> flt \<Rightarrow> int" where
  "float_to_int undef x =
     (case x of
        Fin v \<Rightarrow> if - 32769 < v \<and> v < 32768 then (if 0 \<le> v then \<lfloor>v\<rfloor> else \<lceil>v\<rceil>) else undef x
      | _ \<Rightarrow> undef x)"

text \<open>The first statement of \<open>loop\<close>: a pending toggle is consumed and switches the
  session.\<close>

definition checkToggle :: "firmware \<Rightarrow> inputs \<Rightarrow> state \<Rightarrow> state" where
  "checkToggle fw inp s =
     (if triggered s then
        (let s1 = s\<lparr>triggered := False\<rparr>
         in if logging s1 then stopLog (s1\<lparr>logging := False\<rparr>)
            else startLog fw (now_start inp) (open_ok inp) (s1\<lparr>logging := True\<rparr>))
      else s)"

definition loop :: "firmware \<Rightarrow> real list \<Rightarrow> (flt \<Rightarrow> int) \<Rightarrow> inputs \<Rightarrow> state \<Rightarrow> state" where
  "loop fw tbl undef inp s =
     (let s1 = checkToggle fw inp s;
          s2 = (case fw of
                  TemperatureLogger \<Rightarrow> s1
                | SecondSketch \<Rightarrow> (if logging s1 then digitalWrite True s1 else s1));
          t1 = readThermistorValue tbl (a0 inp);
          t2 = readThermistorValue tbl (a1 inp);
          t3 = readThermistorValue tbl (a2 inp);
          s3 = (case fw of
                  TemperatureLogger \<Rightarrow> digitalWrite True (digitalWrite False s2)
                | SecondSketch \<Rightarrow> s2);
          s4 = logData fw (now_log inp)
                 (float_to_int undef (fmul t1 (Fin 100)))
                 (float_to_int undef (fmul t2 (Fin 100)))
                 (float_to_int undef (fmul t3 (Fin 100))) s3
      in case fw of
           TemperatureLogger \<Rightarrow> s4
         | SecondSketch \<Rightarrow> digitalWrite False s4)"

text \<open>The line one pass of \<open>loop\<close> hands to \<open>logData\<close>: the record of the three readings
  at the clock of \<open>logData\<close>.\<close>

definition cycle_record :: "firmware \<Rightarrow> real list \<Rightarrow> (flt \<Rightarrow> int) \<Rightarrow> inputs \<Rightarrow> string" where
  "cycle_record fw tbl undef inp =
     record_line fw (now_log inp)
       (float_to_int undef (fmul (readThermistorValue tbl (a0 inp)) (Fin 100)))
       (float_to_int undef (fmul (readThermistorValue tbl (a1 inp)) (Fin 100)))
       (float_to_int undef (fmul (readThermistorValue tbl (a2 inp)) (Fin 100)))"

text \<open>\<open>n\<close> presses of the button between two passes of \<open>loop\<close>.\<close>

definition presses :: "firmware \<Rightarrow> nat \<Rightarrow> state \<Rightarrow> state" where
  "presses fw n = (logIsr fw) ^^ n"

text \<open>A state with the session inactive, and the inputs of a pass at 14:05:09 on
  15 August with all three channels at mid-scale.\<close>

definition idle :: state where
  "idle = \<lparr>triggered = False, logging = False, myFile = None, led = True, serial = [],
           sd = Map.empty\<rparr>"

definition sample_time :: DateTime where
  "sample_time = \<lparr>month = 8, day = 15, hour = 14, minute = 5, second = 9\<rparr>"

definition sample_inputs :: "bool \<Rightarrow> inputs" where
  "sample_inputs ok =
     \<lparr>a0 = 512, a1 = 512, a2 = 512, now_start = sample_time, now_log = sample_time,
      open_ok = ok\<rparr>"

section \<open>The record format in the words of the specification\<close>

text \<open>A two-digit zero-padded field; the integer part of a value in hundredths, by
  division truncating toward zero; its fractional part with the sign dropped; and a
  temperature rendered as integer part, dot, fractional part (the second sketch pads the
  integer part with spaces to three characters and appends \<open>C\<close>).\<close>

definition spec_two_digits :: "nat \<Rightarrow> string" where
  "spec_two_digits n = [''0123456789'' ! (n div 10), ''0123456789'' ! (n mod 10)]"

definition spec_integer_part :: "int \<Rightarrow> int" where
  "spec_integer_part v = sgn v * (\<bar>v\<bar> div 100)"

definition spec_fractional_part :: "int \<Rightarrow> nat" where
  "spec_fractional_part v = nat (\<bar>v\<bar> mod 100)"

definition spec_signed :: "int \<Rightarrow> string" where
  "spec_signed k = (if k < 0 then ''-'' else []) @ dec (nat \<bar>k\<bar>)"

definition spec_temperature :: "firmware \<Rightarrow> int \<Rightarrow> string" where
  "spec_temperature fw v =
     (case fw of
        TemperatureLogger \<Rightarrow>
          spec_signed (spec_integer_part v) @ ''.'' @ dec (spec_fractional_part v)
      | SecondSketch \<Rightarrow>
          replicate (3 - length (spec_signed (spec_integer_part v))) (CHR '' '')
            @ spec_signed (spec_integer_part v) @ ''.'' @ dec (spec_fractional_part v) @ ''C'')"

text \<open>The name of the output stream in the words of the specification: two-digit day
  (the second sketch: month and day), hour and minute of the current timestamp.\<close>

definition spec_stream_name :: "firmware \<Rightarrow> DateTime \<Rightarrow> string" where
  "spec_stream_name fw t =
     (case fw of
        TemperatureLogger \<Rightarrow>
          spec_two_digits (day t) @ ''T'' @ spec_two_digits (hour t)
            @ spec_two_digits (minute t) @ ''.csv''
      | SecondSketch \<Rightarrow>
          spec_two_digits (month t) @ ''-'' @ spec_two_digits (day t) @ ''T''
            @ spec_two_digits (hour t) @ ''-'' @ spec_two_digits (minute t) @ ''.txt'')"

text \<open>A state with the session active and the stream open on a file that holds one
  record.\<close>

definition recording :: state where
  "recording =
     \<lparr>triggered = False, logging = True, myFile = Some ''15T1405.csv'', led = True,
      serial = [], sd = [''15T1405.csv'' \<mapsto> [''14:05:09,-78.50,-78.50,-78.50'']]\<rparr>"

definition spec_record :: "firmware \<Rightarrow> DateTime \<Rightarrow> int \<Rightarrow> int \<Rightarrow> int \<Rightarrow> string" where
  "spec_record fw t v1 v2 v3 =
     spec_two_digits (hour t) @ '':'' @ spec_two_digits (minute t) @ '':''
       @ spec_two_digits (second t)
       @ '','' @ spec_temperature fw v1 @ '','' @ spec_temperature fw v2
       @ '','' @ spec_temperature fw v3"

section \<open>Properties of the conversions\<close>

lemma Vtherm_Fin: "Vtherm reading = Fin (of_int reading / 1024 * 5)"
  by (simp add: Vtherm_def VIN_def)

lemma fsub_Fin [simp]: "fsub (Fin a) (Fin b) = Fin (a - b)"
  by (simp add: fsub_def)

lemma Vtherm_ratio:
  "reading \<noteq> 0 \<Longrightarrow>
   fsub (fdiv VIN (Vtherm reading)) (Fin 1) = Fin (1024 / of_int reading - 1)"
  by (simp add: Vtherm_Fin VIN_def)

lemma Vtherm_ratio_zero: "fsub (fdiv VIN (Vtherm 0)) (Fin 1) = PInf"
  by (simp add: Vtherm_Fin VIN_def fsub_def)

lemma readResistorOhms_512: "readResistorOhms 512 = Fin 10000"
  by (simp add: readResistorOhms_def Vtherm_Fin VIN_def R2_def)

text \<open>
  Claim C9.  For every raw reading, \<open>readResistorOhms\<close> computes
  \<open>V_therm = reading / 1024 * Vin\<close> and \<open>R = R2 / (Vin / V_therm - 1)\<close> with \<open>Vin = 5\<close> and
  \<open>R2 = 10000\<close>: in the extended arithmetic for every reading, and as the same formula
  over the reals for every reading but 0 and 1024, where no divisor is zero.  The
  mid-scale reading 512 gives exactly 10000 ohms (every intermediate value there, 0.5,
  2.5, 2 and 1, is a binary fraction, so no rounding occurs in the firmware either).
\<close>

theorem readResistorOhms_formula:
  "readResistorOhms reading =
     fdiv (Fin 10000) (fsub (fdiv (Fin 5) (Fin (of_int reading / 1024 * 5))) (Fin 1))
   \<and> (reading \<noteq> 0 \<and> reading \<noteq> 1024 \<longrightarrow>
        readResistorOhms reading = Fin (10000 / (5 / (of_int reading / 1024 * 5) - 1)))
   \<and> readResistorOhms 512 = Fin 10000"
  by (simp add: readResistorOhms_def Vtherm_Fin VIN_def R2_def)

theorem readResistorOhms_formula_witness:
  "(512::int) \<noteq> 0 \<and> (512::int) \<noteq> 1024 \<and>
   readResistorOhms 512 = Fin (10000 / (5 / (of_int 512 / 1024 * 5) - 1))"
  using readResistorOhms_formula [of 512] by simp

text \<open>
  Claim C10.  At the reading 0 the voltage \<open>V_therm\<close> is zero and \<open>Vin / V_therm\<close> divides
  by zero (the quotient is the infinity, and the resistance returned is 0).  For every
  reading from 1 to 1023 both \<open>V_therm\<close> and \<open>Vin / V_therm - 1\<close>, the divisors that depend
  on the reading, are finite and nonzero (the third divisor is the constant 1024).
  \<open>V_therm = Vin\<close>, which makes the last divisor zero, needs the reading 1024, which a
  10-bit converter does not produce.
\<close>

theorem readResistorOhms_zero_divisors:
  "Vtherm 0 = Fin 0 \<and> fdiv VIN (Vtherm 0) = PInf \<and> readResistorOhms 0 = Fin 0
   \<and> (1 \<le> reading \<and> reading \<le> 1023 \<longrightarrow>
        (\<exists>v d. Vtherm reading = Fin v \<and> v \<noteq> 0
           \<and> fsub (fdiv VIN (Vtherm reading)) (Fin 1) = Fin d \<and> d \<noteq> 0))
   \<and> (Vtherm reading = VIN \<longleftrightarrow> reading = 1024)
   \<and> (fsub (fdiv VIN (Vtherm reading)) (Fin 1) = Fin 0 \<longleftrightarrow> reading = 1024)"
proof -
  have z: "Vtherm 0 = Fin 0 \<and> fdiv VIN (Vtherm 0) = PInf \<and> readResistorOhms 0 = Fin 0"
    by (simp add: readResistorOhms_def Vtherm_Fin VIN_def R2_def fsub_def)
  have r: "\<exists>v d. Vtherm reading = Fin v \<and> v \<noteq> 0
           \<and> fsub (fdiv VIN (Vtherm reading)) (Fin 1) = Fin d \<and> d \<noteq> 0"
    if "1 \<le> reading \<and> reading \<le> 1023"
  proof -
    from that have nz: "reading \<noteq> 0" by simp
    have v: "Vtherm reading = Fin (of_int reading / 1024 * 5)"
      by (rule Vtherm_Fin)
    from nz have vnz: "(of_int reading / 1024 * 5 :: real) \<noteq> 0" by simp
    from nz have d: "fsub (fdiv VIN (Vtherm reading)) (Fin 1) = Fin (1024 / of_int reading - 1)"
      by (rule Vtherm_ratio)
    from that have dnz: "(1024::real) / of_int reading - 1 \<noteq> 0" by (simp add: field_simps)
    from v vnz d dnz show ?thesis by blast
  qed
  have s1: "Vtherm reading = VIN \<longleftrightarrow> reading = 1024"
    by (auto simp add: Vtherm_Fin VIN_def)
  have s2: "fsub (fdiv VIN (Vtherm reading)) (Fin 1) = Fin 0 \<longleftrightarrow> reading = 1024"
  proof (cases "reading = 0")
    case True
    then show ?thesis by (simp add: Vtherm_ratio_zero)
  next
    case False
    then show ?thesis by (auto simp add: Vtherm_ratio field_simps)
  qed
  from z r s1 s2 show ?thesis by blast
qed

theorem readResistorOhms_zero_divisors_witness:
  "(1::int) \<le> 1023 \<and> (1023::int) \<le> 1023 \<and>
   (\<exists>v d. Vtherm 1023 = Fin v \<and> v \<noteq> 0
           \<and> fsub (fdiv VIN (Vtherm 1023)) (Fin 1) = Fin d \<and> d \<noteq> 0)"
  using readResistorOhms_zero_divisors [of 1023] by simp

section \<open>Properties of the table scan\<close>

declare scanTable.simps [simp del]

lemma scanTable_end: "\<not> i < END \<Longrightarrow> scanTable tbl r i = Fin (- 9999)"
  by (subst scanTable.simps) simp

lemma scanTable_skip:
  "i < END \<Longrightarrow> \<not> fless (pgm_read_float tbl i) r \<Longrightarrow> scanTable tbl r i = scanTable tbl r (Suc i)"
  by (subst scanTable.simps) simp

lemma scanTable_hit:
  "i < END \<Longrightarrow> fless (pgm_read_float tbl i) r \<Longrightarrow>
   scanTable tbl r i =
     fadd (map_float r (pgm_read_float tbl (i - 1)) (pgm_read_float tbl i)
             (fsub (Fin (real i)) (Fin 1)) (Fin (real i)))
          (Fin (of_int TEMP_OFFSET))"
  by (subst scanTable.simps) simp

lemma hit_value:
  "tbl ! i \<noteq> tbl ! (i - 1) \<Longrightarrow>
   fadd (map_float (Fin r) (pgm_read_float tbl (i - 1)) (pgm_read_float tbl i)
           (fsub (Fin (real i)) (Fin 1)) (Fin (real i)))
        (Fin (of_int TEMP_OFFSET)) = Fin (interpolate tbl r i)"
  by (simp add: map_float_def pgm_read_float_def interpolate_def fsub_def)

lemma scanTable_first:
  assumes "i \<le> j" and "j < END"
    and "\<forall>k. i \<le> k \<and> k < j \<longrightarrow> \<not> tbl ! k < r"
    and "tbl ! j < r" and "tbl ! j \<noteq> tbl ! (j - 1)"
  shows "scanTable tbl (Fin r) i = Fin (interpolate tbl r j)"
  using assms
proof (induction i rule: inc_induct)
  case base
  then have "scanTable tbl (Fin r) j =
      fadd (map_float (Fin r) (pgm_read_float tbl (j - 1)) (pgm_read_float tbl j)
              (fsub (Fin (real j)) (Fin 1)) (Fin (real j)))
           (Fin (of_int TEMP_OFFSET))"
    by (intro scanTable_hit) (simp_all add: pgm_read_float_def)
  also from base have "\<dots> = Fin (interpolate tbl r j)"
    by (intro hit_value) simp
  finally show ?case .
next
  case (step n)
  from step.hyps step.prems have "\<not> tbl ! n < r" and "n < END" by auto
  then have "scanTable tbl (Fin r) n = scanTable tbl (Fin r) (Suc n)"
    by (simp add: scanTable_skip pgm_read_float_def)
  moreover have "scanTable tbl (Fin r) (Suc n) = Fin (interpolate tbl r j)"
    using step by auto
  ultimately show ?case by simp
qed

lemma scanTable_none:
  "\<forall>k. i \<le> k \<and> k < END \<longrightarrow> \<not> tbl ! k < r \<Longrightarrow> scanTable tbl (Fin r) i = Fin (- 9999)"
proof (induction "END - i" arbitrary: i)
  case 0
  then show ?case by (simp add: scanTable_end)
next
  case (Suc d)
  then have lt: "i < END" and no: "\<not> tbl ! i < r" by auto
  then have "scanTable tbl (Fin r) i = scanTable tbl (Fin r) (Suc i)"
    by (simp add: scanTable_skip pgm_read_float_def)
  moreover have "scanTable tbl (Fin r) (Suc i) = Fin (- 9999)"
    using Suc by (intro Suc.hyps) auto
  ultimately show ?case by simp
qed

lemma decreasing_nth:
  "decreasing tbl \<Longrightarrow> i < j \<Longrightarrow> j < length tbl \<Longrightarrow> tbl ! j < tbl ! i"
  by (simp add: decreasing_def sorted_wrt_iff_nth_less)

lemma decreasing_nth_le:
  "decreasing tbl \<Longrightarrow> i \<le> j \<Longrightarrow> j < length tbl \<Longrightarrow> tbl ! j \<le> tbl ! i"
  using decreasing_nth [of tbl i j] by (cases "i = j") auto

lemma sampleTable_length: "length sampleTable = END"
  by (simp add: sampleTable_def END_def)

lemma sampleTable_decreasing: "decreasing sampleTable"
  by (auto simp add: decreasing_def sampleTable_def sorted_wrt_map
        intro: sorted_wrt_mono_rel [OF _ sorted_wrt_upt])

lemma sampleTable_head:
  "sampleTable ! 0 = 40000" "sampleTable ! 1 = 20000" "sampleTable ! 2 = 8000"
  "sampleTable ! 3 = 4000" "sampleTable ! Suc 0 = 20000"
  by (simp_all add: sampleTable_def)

lemma sampleTable_last: "sampleTable ! 379 = 3624"
  by (simp add: sampleTable_def)

lemma scan_exhausted:
  assumes "length tbl = END" and "decreasing tbl" and "r \<le> tbl ! 379"
  shows "thermistorValueOfOhms tbl (Fin r) = Fin (- 9999)"
proof -
  have "\<not> tbl ! k < r" if "k < END" for k
  proof -
    from that have "k \<le> 379" by (simp add: END_def)
    with assms have "tbl ! 379 \<le> tbl ! k"
      by (intro decreasing_nth_le) (simp_all add: END_def)
    with assms(3) show ?thesis by simp
  qed
  then show ?thesis
    unfolding thermistorValueOfOhms_def by (intro scanTable_none) simp
qed

lemma entry_exact:
  assumes "length tbl = END" and "decreasing tbl" and "2 \<le> i" and "i \<le> 378"
  shows "thermistorValueOfOhms tbl (Fin (tbl ! i)) = Fin (real i + of_int TEMP_OFFSET)"
proof -
  have lt: "tbl ! Suc i < tbl ! i"
    using assms by (intro decreasing_nth) (simp_all add: END_def)
  have no: "\<forall>k. START + 1 \<le> k \<and> k < Suc i \<longrightarrow> \<not> tbl ! k < tbl ! i"
  proof (intro allI impI)
    fix k assume "START + 1 \<le> k \<and> k < Suc i"
    then have "k \<le> i" by simp
    with assms have "tbl ! i \<le> tbl ! k"
      by (intro decreasing_nth_le) (simp_all add: END_def)
    then show "\<not> tbl ! k < tbl ! i" by simp
  qed
  have "scanTable tbl (Fin (tbl ! i)) (START + 1) = Fin (interpolate tbl (tbl ! i) (Suc i))"
    using assms lt no by (intro scanTable_first) (simp_all add: START_def END_def)
  then show ?thesis
    by (simp add: thermistorValueOfOhms_def interpolate_def)
qed

lemma scan_from_1:
  "scanTable sampleTable (Fin 10000) 1 = Fin (- (469 / 6))"
proof -
  have "scanTable sampleTable (Fin 10000) 1 = scanTable sampleTable (Fin 10000) (Suc 1)"
    by (rule scanTable_skip) (simp_all add: END_def pgm_read_float_def sampleTable_head)
  also have "\<dots> = scanTable sampleTable (Fin 10000) 2"
    by (simp only: Suc_1)
  also have "\<dots> = Fin (- (469 / 6))"
    by (simp add: END_def scanTable_hit pgm_read_float_def sampleTable_head
        map_float_def fsub_def TEMP_OFFSET_def)
  finally show ?thesis .
qed

lemma sample_reading: "readThermistorValue sampleTable 512 = Fin (- (157 / 2))"
  by (simp add: readThermistorValue_def thermistorValueOfOhms_def START_def END_def
      readResistorOhms_512 scanTable_hit pgm_read_float_def sampleTable_head
      map_float_def fsub_def TEMP_OFFSET_def del: One_nat_def)

text \<open>What the loop does on a strictly decreasing table: it stops at the first index from
  \<open>START + 1 = 3\<close> whose entry is below the resistance, and returns the index obtained by
  linear interpolation between that entry and its predecessor, plus \<open>TEMP_OFFSET\<close>.\<close>

lemma scan_selects_first:
  assumes "length tbl = END" and "decreasing tbl"
    and "START + 1 \<le> j" and "j < END" and "tbl ! j < r"
    and "j = START + 1 \<or> tbl ! (j - 1) \<ge> r"
  shows "thermistorValueOfOhms tbl (Fin r) = Fin (interpolate tbl r j)"
proof -
  have no: "\<forall>k. START + 1 \<le> k \<and> k < j \<longrightarrow> \<not> tbl ! k < r"
  proof (intro allI impI)
    fix k assume k: "START + 1 \<le> k \<and> k < j"
    with assms(6) have r: "r \<le> tbl ! (j - 1)" by auto
    from k assms(1,2,4) have "tbl ! (j - 1) \<le> tbl ! k"
      by (intro decreasing_nth_le) auto
    with r show "\<not> tbl ! k < r" by simp
  qed
  from assms(1-4) have "tbl ! j < tbl ! (j - 1)"
    by (intro decreasing_nth) (simp_all add: START_def)
  then have "tbl ! j \<noteq> tbl ! (j - 1)" by simp
  with assms(3-5) no show ?thesis
    unfolding thermistorValueOfOhms_def by (intro scanTable_first) simp_all
qed

text \<open>
  Claim C1.  The scan is claimed to start at index 1.  In the firmware it starts at
  \<open>START + 1\<close>, where \<open>START\<close> is the pin number 2 of the start/stop button, that is at
  index 3.  On the sample table the mid-scale reading 512 (10000 ohms, between the
  entries at 1 and 2) is converted by extrapolating the entries at 2 and 3 to -78.5,
  where the scan from index 1 stops at index 2 and interpolates the entries at 1 and 2
  to -469/6.
\<close>

theorem readThermistorValue_scan_start:
  "readThermistorValue sampleTable 512 = Fin (- (157 / 2)) \<and>
   scanTable sampleTable (readResistorOhms 512) 1 = Fin (- (469 / 6)) \<and>
   readThermistorValue sampleTable 512 \<noteq> scanTable sampleTable (readResistorOhms 512) 1"
  using sample_reading scan_from_1 by (simp add: readResistorOhms_512)

text \<open>
  Claim C2, as stated: a resistance above the value at index 1 gives the sentinel.
  On the sample table 48000 ohms is above the entries at 1 and at 0, and the converter
  returns -88, extrapolated from the entries at 2 and 3.  The loop started at index 1
  would not reach the sentinel either: it stops at once, at index 1.
\<close>

theorem sentinel_above_maximum_counterexample:
  "sampleTable ! 1 < 48000 \<and> sampleTable ! 0 < 48000 \<and>
   thermistorValueOfOhms sampleTable (Fin 48000) = Fin (- 88) \<and>
   thermistorValueOfOhms sampleTable (Fin 48000) \<noteq> Fin (- 9999) \<and>
   scanTable sampleTable (Fin 48000) 1 = Fin (- (402 / 5))"
  by (simp add: thermistorValueOfOhms_def START_def END_def
      scanTable_hit pgm_read_float_def sampleTable_head
      map_float_def fsub_def TEMP_OFFSET_def)

text \<open>
  Claim C2, amended.  On a table of \<open>END\<close> strictly decreasing entries, every resistance
  less than or equal to the table's minimum, the value at the last index 379, gives the
  sentinel -9999.0: no entry is strictly below the input and the loop runs out.
\<close>

theorem thermistorValueOfOhms_sentinel:
  assumes "length tbl = END" and "decreasing tbl" and "r \<le> tbl ! 379"
  shows "thermistorValueOfOhms tbl (Fin r) = Fin (- 9999)"
  using assms by (rule scan_exhausted)

theorem thermistorValueOfOhms_sentinel_witness:
  "length sampleTable = END \<and> decreasing sampleTable \<and> 1000 \<le> sampleTable ! 379 \<and>
   thermistorValueOfOhms sampleTable (Fin 1000) = Fin (- 9999)"
proof -
  have le: "1000 \<le> sampleTable ! 379" by (simp add: sampleTable_last)
  from thermistorValueOfOhms_sentinel [OF sampleTable_length sampleTable_decreasing le]
    sampleTable_length sampleTable_decreasing le
  show ?thesis by simp
qed

text \<open>
  Claim C7, as stated for every valid index: at the last index 379 the input equals the
  smallest entry, no entry is strictly below it, and the converter returns the sentinel
  instead of \<open>379 + TEMP_OFFSET = 299\<close>.
\<close>

theorem table_entry_last_counterexample:
  "thermistorValueOfOhms sampleTable (Fin (sampleTable ! 379)) = Fin (- 9999) \<and>
   thermistorValueOfOhms sampleTable (Fin (sampleTable ! 379)) \<noteq> Fin (real 379 + of_int TEMP_OFFSET)"
proof -
  have "thermistorValueOfOhms sampleTable (Fin (sampleTable ! 379)) = Fin (- 9999)"
    by (rule scan_exhausted [OF sampleTable_length sampleTable_decreasing]) simp
  then show ?thesis by (simp add: TEMP_OFFSET_def)
qed

text \<open>
  Claim C7, amended.  On a table of \<open>END\<close> strictly decreasing entries, for every index
  \<open>i\<close> from 2 to 378 an input resistance equal to the entry at \<open>i\<close> is converted to exactly
  \<open>i + TEMP_OFFSET\<close>; an input equal to the entry at the last index 379 is converted to
  the sentinel -9999.0.
\<close>

theorem table_entry_exact:
  assumes "length tbl = END" and "decreasing tbl"
  shows "(2 \<le> i \<and> i \<le> 378 \<longrightarrow>
           thermistorValueOfOhms tbl (Fin (tbl ! i)) = Fin (real i + of_int TEMP_OFFSET))
         \<and> thermistorValueOfOhms tbl (Fin (tbl ! 379)) = Fin (- 9999)"
proof -
  have "thermistorValueOfOhms tbl (Fin (tbl ! 379)) = Fin (- 9999)"
    using assms by (rule scan_exhausted) simp
  with entry_exact [OF assms] show ?thesis by simp
qed

theorem table_entry_exact_witness:
  "length sampleTable = END \<and> decreasing sampleTable \<and> (2::nat) \<le> 200 \<and> (200::nat) \<le> 378 \<and>
   thermistorValueOfOhms sampleTable (Fin (sampleTable ! 200)) = Fin (real 200 + of_int TEMP_OFFSET)"
  using table_entry_exact [OF sampleTable_length sampleTable_decreasing, of 200]
    sampleTable_length sampleTable_decreasing
  by simp

section \<open>Properties of the record format\<close>

lemma dec_two: "10 \<le> n \<Longrightarrow> n < 100 \<Longrightarrow> dec n = [''0123456789'' ! (n div 10), ''0123456789'' ! (n mod 10)]"
  by (subst dec.simps) simp

lemma length_dec_le: "n < 10 ^ k \<Longrightarrow> 0 < k \<Longrightarrow> length (dec n) \<le> k"
proof (induction n arbitrary: k rule: dec.induct)
  case (1 n)
  show ?case
  proof (cases "n < 10")
    case True
    with 1 show ?thesis by simp
  next
    case False
    from 1(2) 1(3) obtain k' where k': "k = Suc k'" by (cases k) auto
    with False 1(2) have "0 < k'" by (cases k') auto
    moreover from k' 1(2) have "n div 10 < 10 ^ k'" by (simp add: less_mult_imp_div_less mult.commute)
    ultimately have "length (dec (n div 10)) \<le> k'" using 1(1) [OF False] by simp
    with False k' show ?thesis by (subst dec.simps) simp
  qed
qed

lemma conv_d_two: "n < 100 \<Longrightarrow> conv_d True 2 (int n) = spec_two_digits n"
  apply (cases "n < 10")
   apply (simp add: conv_d_def spec_two_digits_def)
  apply (simp add: conv_d_def spec_two_digits_def dec_two del: dec.simps)
  done

lemma conv_d_plain: "conv_d False 0 v = spec_signed v"
  by (simp add: conv_d_def spec_signed_def del: dec.simps)

lemma conv_d_three:
  "conv_d False 3 v = replicate (3 - length (spec_signed v)) (CHR '' '') @ spec_signed v"
  by (simp add: conv_d_def spec_signed_def Let_def del: dec.simps)

lemma sdiv_100: "v sdiv 100 = spec_integer_part v"
  by (simp add: signed_divide_int_def spec_integer_part_def)

lemma smod_100: "\<bar>v smod 100\<bar> = int (spec_fractional_part v)"
  by (cases "v = 0") (simp_all add: signed_modulo_int_def abs_mult spec_fractional_part_def)

lemma printf_main_format: "printf ''%02d:%02d:%02d,%d.%d,%d.%d,%d.%d'' [h, m, s, i1, f1, i2, f2, i3, f3] = 
  conv_d True 2 h @ '':'' @ conv_d True 2 m @ '':'' @ conv_d True 2 s @ '','' @ conv_d False 0 i1 @ ''.'' @ conv_d False 0 f1
   @ '','' @ conv_d False 0 i2 @ ''.'' @ conv_d False 0 f2 @ '','' @ conv_d False 0 i3 @ ''.'' @ conv_d False 0 f3"
  by (simp add: digit_val_def del: dec.simps)

lemma printf_second_format: "printf ''%02d:%02d:%02d,%3d.%dC,%3d.%dC,%3d.%dC'' [h, m, s, i1, f1, i2, f2, i3, f3] = 
  conv_d True 2 h @ '':'' @ conv_d True 2 m @ '':'' @ conv_d True 2 s @ '','' @ conv_d False 3 i1 @ ''.'' @ conv_d False 0 f1 @ ''C''
   @ '','' @ conv_d False 3 i2 @ ''.'' @ conv_d False 0 f2 @ ''C'' @ '','' @ conv_d False 3 i3 @ ''.'' @ conv_d False 0 f3 @ ''C''"
  by (simp add: digit_val_def del: dec.simps)

lemma length_spec_signed:
  "\<bar>k\<bar> < 1000 \<Longrightarrow> length (spec_signed k) \<le> 4"
proof -
  assume "\<bar>k\<bar> < 1000"
  then have "nat \<bar>k\<bar> < 10 ^ 3" by simp
  then have "length (dec (nat \<bar>k\<bar>)) \<le> 3" by (rule length_dec_le) simp
  then show ?thesis by (cases "k < 0") (simp_all add: spec_signed_def abs_if del: dec.simps)
qed

lemma length_spec_temperature:
  assumes "- 32768 \<le> v" and "v \<le> 32767"
  shows "length (spec_temperature fw v) \<le> 8"
proof -
  from assms have "\<bar>v\<bar> div 100 < 1000" by simp
  then have "\<bar>spec_integer_part v\<bar> < 1000"
    by (cases "v = 0") (simp_all add: spec_integer_part_def abs_mult)
  then have i: "length (spec_signed (spec_integer_part v)) \<le> 4"
    by (rule length_spec_signed)
  have "spec_fractional_part v < 10 ^ 2"
    by (simp add: spec_fractional_part_def)
  then have f: "length (dec (spec_fractional_part v)) \<le> 2"
    by (rule length_dec_le) simp
  from i f show ?thesis
    by (cases fw) (simp_all add: spec_temperature_def del: dec.simps)
qed

lemma length_spec_record:
  assumes "- 32768 \<le> v1 \<and> v1 \<le> 32767" "- 32768 \<le> v2 \<and> v2 \<le> 32767"
    "- 32768 \<le> v3 \<and> v3 \<le> 32767"
  shows "length (spec_record fw t v1 v2 v3) \<le> 35"
  using assms length_spec_temperature [of v1 fw] length_spec_temperature [of v2 fw]
    length_spec_temperature [of v3 fw]
  by (simp add: spec_record_def spec_two_digits_def)

lemma printf_record:
  assumes "hour t < 100" "minute t < 100" "second t < 100"
  shows "printf (case fw of
          TemperatureLogger \<Rightarrow> ''%02d:%02d:%02d,%d.%d,%d.%d,%d.%d''
        | SecondSketch \<Rightarrow> ''%02d:%02d:%02d,%3d.%dC,%3d.%dC,%3d.%dC'')
       [int (hour t), int (minute t), int (second t),
        v1 sdiv 100, \<bar>v1 smod 100\<bar>, v2 sdiv 100, \<bar>v2 smod 100\<bar>, v3 sdiv 100, \<bar>v3 smod 100\<bar>]
     = spec_record fw t v1 v2 v3"
proof (cases fw)
  case TemperatureLogger
  then show ?thesis
    using assms
    by (simp add: printf_main_format conv_d_two conv_d_plain sdiv_100 smod_100 spec_record_def
        spec_temperature_def spec_signed_def [of "int n" for n] del: dec.simps printf.simps)
next
  case SecondSketch
  then show ?thesis
    using assms
    by (simp add: printf_second_format conv_d_two conv_d_plain conv_d_three sdiv_100 smod_100 spec_record_def
        spec_temperature_def spec_signed_def [of "int n" for n] del: dec.simps printf.simps)
qed

text \<open>
  Claim C8.  For every timestamp (fields below 100, as those of a clock are) and every
  three values in hundredths (C \<open>int\<close>s of 16 bits), the line \<open>logData\<close> formats is the
  record of the specification: hour, minute and second as two zero-padded digits, and
  each value \<open>v\<close> as its integer part \<open>v / 100\<close> truncated toward zero, a dot, and
  \<open>abs(v % 100)\<close>, the fractional part without its sign.  Both sketches do so; the second
  one pads the integer part to three characters and appends \<open>C\<close>.
\<close>

theorem record_line_format:
  assumes "hour t < 100" "minute t < 100" "second t < 100"
    and "- 32768 \<le> v1 \<and> v1 \<le> 32767" "- 32768 \<le> v2 \<and> v2 \<le> 32767"
    "- 32768 \<le> v3 \<and> v3 \<le> 32767"
  shows "record_line fw t v1 v2 v3 = spec_record fw t v1 v2 v3"
proof -
  have "length (spec_record fw t v1 v2 v3) \<le> 35"
    using assms(4-6) by (rule length_spec_record)
  then show ?thesis
    using printf_record [OF assms(1-3), of fw v1 v2 v3]
    by (simp add: record_line_def snprintf_def LINE_LEN_def del: printf.simps)
qed

theorem record_line_format_witness:
  "hour sample_time < 100 \<and> minute sample_time < 100 \<and> second sample_time < 100 \<and>
   record_line TemperatureLogger sample_time 2345 (- 530) 10000
     = spec_record TemperatureLogger sample_time 2345 (- 530) 10000 \<and>
   spec_record TemperatureLogger sample_time 2345 (- 530) 10000 = ''14:05:09,23.45,-5.30,100.0''"
proof -
  have t: "hour sample_time < 100" "minute sample_time < 100" "second sample_time < 100"
    by (simp_all add: sample_time_def)
  have "record_line TemperatureLogger sample_time 2345 (- 530) 10000
     = spec_record TemperatureLogger sample_time 2345 (- 530) 10000"
    by (rule record_line_format [OF t]) simp_all
  moreover have "spec_record TemperatureLogger sample_time 2345 (- 530) 10000
     = ''14:05:09,23.45,-5.30,100.0''"
    by (simp add: spec_record_def sample_time_def spec_temperature_def spec_two_digits_def
        spec_signed_def spec_integer_part_def spec_fractional_part_def)
  ultimately show ?thesis using t by simp
qed

section \<open>Properties of the logger\<close>

text \<open>The button's interrupt handler runs to completion between two statements of
  \<open>loop\<close> and only sets the flag (and the LED), so presses during a pass, after the flag
  has been consumed, are pending for the next pass exactly as presses between two passes
  are.\<close>

lemma presses_fields:
  "0 < n \<Longrightarrow> triggered (presses fw n s)"
  "logging (presses fw n s) = logging s"
  "myFile (presses fw n s) = myFile s"
  "serial (presses fw n s) = serial s"
  "sd (presses fw n s) = sd s"
  by (induction n; cases fw; simp add: presses_def logIsr_def digitalWrite_def Let_def)+

lemma checkToggle_start:
  assumes "triggered s" and "\<not> logging s"
  shows "logging (checkToggle fw inp s)" "\<not> triggered (checkToggle fw inp s)"
    "myFile (checkToggle fw inp s) = (if open_ok inp then Some (log_name fw (now_start inp)) else None)"
    "serial (checkToggle fw inp s) = serial s @ [''Recording started: '' @ log_name fw (now_start inp)]"
    "sd (checkToggle fw inp s) =
       (if open_ok inp then (sd s)(log_name fw (now_start inp) \<mapsto> file_lines (sd s) (log_name fw (now_start inp)))
        else sd s)"
  using assms
  by (simp_all add: checkToggle_def startLog_def SD_open_def Serial_println_def Let_def)

lemma checkToggle_stop:
  assumes "triggered s" and "logging s"
  shows "\<not> logging (checkToggle fw inp s)" "\<not> triggered (checkToggle fw inp s)"
    "myFile (checkToggle fw inp s) = None"
    "serial (checkToggle fw inp s) = serial s @ [''Recording stopped'']"
    "sd (checkToggle fw inp s) = sd s"
  using assms
  by (simp_all add: checkToggle_def stopLog_def Serial_println_def Let_def)

lemma checkToggle_idle: "\<not> triggered s \<Longrightarrow> checkToggle fw inp s = s"
  by (simp add: checkToggle_def)

lemma loop_fields:
  "logging (loop fw tbl undef inp s) = logging (checkToggle fw inp s)"
  "triggered (loop fw tbl undef inp s) = triggered (checkToggle fw inp s)"
  "myFile (loop fw tbl undef inp s) = myFile (checkToggle fw inp s)"
  "serial (loop fw tbl undef inp s) = serial (checkToggle fw inp s) @ [cycle_record fw tbl undef inp]"
  "sd (loop fw tbl undef inp s) =
     (if logging (checkToggle fw inp s) then sd (File_println (cycle_record fw tbl undef inp) (checkToggle fw inp s))
      else sd (checkToggle fw inp s))"
  by (cases fw; simp add: loop_def logData_def Let_def digitalWrite_def Serial_println_def File_println_def cycle_record_def
     split: option.splits)+

lemma sample_record:
  "cycle_record TemperatureLogger sampleTable (\<lambda>x. 0) (sample_inputs ok)
     = ''14:05:09,-78.50,-78.50,-78.50''"
  by (simp add: cycle_record_def sample_inputs_def sample_reading float_to_int_def
      record_line_def snprintf_def LINE_LEN_def sample_time_def conv_d_def digit_val_def
      signed_divide_int_def signed_modulo_int_def)

lemma sample_inputs_fields:
  "open_ok (sample_inputs ok) = ok" "now_start (sample_inputs ok) = sample_time"
  "now_log (sample_inputs ok) = sample_time"
  by (simp_all add: sample_inputs_def)

lemma sample_name: "log_name TemperatureLogger sample_time = ''15T1405.csv''"
  "log_name SecondSketch sample_time = ''08-15T14-05.txt''"
  by (simp_all add: log_name_def snprintf_def LINE_LEN_def sample_time_def conv_d_def digit_val_def)

lemma log_name_fields:
  assumes "month t < 100" and "day t < 100" and "hour t < 100" and "minute t < 100"
  shows "log_name fw t = spec_stream_name fw t"
  using assms
  by (cases fw)
     (simp_all add: log_name_def snprintf_def LINE_LEN_def digit_val_def conv_d_two
        spec_stream_name_def spec_two_digits_def [of "n" for n] del: dec.simps)

lemma sample_time_fields:
  "month sample_time = 8" "day sample_time = 15" "hour sample_time = 14"
  "minute sample_time = 5" "second sample_time = 9"
  by (simp_all add: sample_time_def)

lemma sample_stream_name: "spec_stream_name TemperatureLogger sample_time = ''15T1405.csv''"
  by (simp add: spec_stream_name_def spec_two_digits_def sample_time_fields)

text \<open>
  Claim C3.  The session has the two states of the flag \<open>_logging\<close>.  A pass of \<open>loop\<close>
  with a pending toggle switches an inactive session to active, opens the stream whose
  name is made of the two-digit day, hour and minute of the clock read by \<open>startLog\<close>
  (when \<open>SD.open\<close> succeeds the handle is open on the file of that name, which then
  holds its former lines and the record of the pass) and prints
  \<open>Recording started: <name>\<close>; it switches an active session to inactive, closes the
  stream, leaving the card as it is, and prints \<open>Recording stopped\<close>.  The toggle is
  consumed, and the record of the pass follows the notification on the diagnostic
  output.  The clock fields are below 100, as those of a clock are.
\<close>

theorem toggle_transitions:
  assumes "triggered s"
    and "month (now_start inp) < 100" and "day (now_start inp) < 100"
    and "hour (now_start inp) < 100" and "minute (now_start inp) < 100"
  shows "(\<not> logging s \<longrightarrow>
            logging (loop fw tbl undef inp s) \<and> \<not> triggered (loop fw tbl undef inp s)
          \<and> (open_ok inp \<longrightarrow>
                myFile (loop fw tbl undef inp s) = Some (spec_stream_name fw (now_start inp))
              \<and> sd (loop fw tbl undef inp s) (spec_stream_name fw (now_start inp))
                  = Some (file_lines (sd s) (spec_stream_name fw (now_start inp))
                            @ [cycle_record fw tbl undef inp]))
          \<and> serial (loop fw tbl undef inp s)
              = serial s @ [''Recording started: '' @ spec_stream_name fw (now_start inp),
                            cycle_record fw tbl undef inp])
       \<and> (logging s \<longrightarrow>
            \<not> logging (loop fw tbl undef inp s) \<and> \<not> triggered (loop fw tbl undef inp s)
          \<and> myFile (loop fw tbl undef inp s) = None
          \<and> sd (loop fw tbl undef inp s) = sd s
          \<and> serial (loop fw tbl undef inp s)
              = serial s @ [''Recording stopped'', cycle_record fw tbl undef inp])"
proof (cases "logging s")
  case True
  with assms(1) show ?thesis
    by (simp add: loop_fields checkToggle_stop)
next
  case False
  have name: "log_name fw (now_start inp) = spec_stream_name fw (now_start inp)"
    using assms(2-5) by (rule log_name_fields)
  from assms(1) False show ?thesis
    by (simp add: loop_fields checkToggle_start File_println_def file_lines_def name)
qed

theorem toggle_transitions_witness:
  "triggered (idle\<lparr>triggered := True\<rparr>) \<and> \<not> logging (idle\<lparr>triggered := True\<rparr>)
   \<and> month (now_start (sample_inputs True)) < 100 \<and> day (now_start (sample_inputs True)) < 100
   \<and> hour (now_start (sample_inputs True)) < 100 \<and> minute (now_start (sample_inputs True)) < 100
   \<and> open_ok (sample_inputs True)
   \<and> logging (loop TemperatureLogger sampleTable (\<lambda>x. 0) (sample_inputs True) (idle\<lparr>triggered := True\<rparr>))
   \<and> myFile (loop TemperatureLogger sampleTable (\<lambda>x. 0) (sample_inputs True) (idle\<lparr>triggered := True\<rparr>))
       = Some ''15T1405.csv''
   \<and> sd (loop TemperatureLogger sampleTable (\<lambda>x. 0) (sample_inputs True) (idle\<lparr>triggered := True\<rparr>))
        ''15T1405.csv'' = Some [''14:05:09,-78.50,-78.50,-78.50'']
   \<and> serial (loop TemperatureLogger sampleTable (\<lambda>x. 0) (sample_inputs True) (idle\<lparr>triggered := True\<rparr>))
       = [''Recording started: 15T1405.csv'', ''14:05:09,-78.50,-78.50,-78.50'']
   \<and> triggered (recording\<lparr>triggered := True\<rparr>)
   \<and> logging (recording\<lparr>triggered := True\<rparr>)
   \<and> myFile (recording\<lparr>triggered := True\<rparr>) = Some ''15T1405.csv''
   \<and> \<not> logging (loop TemperatureLogger sampleTable (\<lambda>x. 0) (sample_inputs True)
         (recording\<lparr>triggered := True\<rparr>))
   \<and> myFile (loop TemperatureLogger sampleTable (\<lambda>x. 0) (sample_inputs True)
         (recording\<lparr>triggered := True\<rparr>)) = None
   \<and> sd (loop TemperatureLogger sampleTable (\<lambda>x. 0) (sample_inputs True)
         (recording\<lparr>triggered := True\<rparr>)) ''15T1405.csv''
       = Some [''14:05:09,-78.50,-78.50,-78.50'']
   \<and> serial (loop TemperatureLogger sampleTable (\<lambda>x. 0) (sample_inputs True)
         (recording\<lparr>triggered := True\<rparr>))
       = [''Recording stopped'', ''14:05:09,-78.50,-78.50,-78.50'']"
  using toggle_transitions [of "idle\<lparr>triggered := True\<rparr>" "sample_inputs True"
      TemperatureLogger sampleTable "\<lambda>x. 0"]
    toggle_transitions [of "recording\<lparr>triggered := True\<rparr>" "sample_inputs True"
      TemperatureLogger sampleTable "\<lambda>x. 0"]
  by (simp add: sample_record sample_stream_name sample_inputs_fields sample_time_fields
      file_lines_def)
     (simp add: idle_def recording_def)

text \<open>
  Claim C4, as stated: after a failed \<open>SD.open\<close> the session falls back to inactive and
  the failure is reported.  \<open>startLog\<close> does not test the handle: after a toggle from the
  inactive state with a failing open, the session is active and the diagnostic output
  holds the start notification and the record, and no report of a failure.
\<close>

theorem open_failure_counterexample:
  "triggered (idle\<lparr>triggered := True\<rparr>) \<and> \<not> logging (idle\<lparr>triggered := True\<rparr>)
   \<and> \<not> open_ok (sample_inputs False)
   \<and> logging (loop TemperatureLogger sampleTable (\<lambda>x. 0) (sample_inputs False)
        (idle\<lparr>triggered := True\<rparr>))
   \<and> serial (loop TemperatureLogger sampleTable (\<lambda>x. 0) (sample_inputs False)
        (idle\<lparr>triggered := True\<rparr>))
       = [''Recording started: 15T1405.csv'', ''14:05:09,-78.50,-78.50,-78.50'']"
  by (simp add: idle_def loop_fields checkToggle_start sample_record sample_name
      sample_inputs_fields)

text \<open>
  Claim C4, amended.  If opening the output stream fails during a toggle from inactive
  to active, the controller stays active with a handle that is not open: the
  \<open>Recording started\<close> notification is still printed, no failure is reported, and the
  record of the pass goes to the diagnostic output only, the card being left unchanged.
\<close>

theorem open_failure_stays_active:
  assumes "triggered s" and "\<not> logging s" and "\<not> open_ok inp"
  shows "logging (loop fw tbl undef inp s)
       \<and> myFile (loop fw tbl undef inp s) = None
       \<and> sd (loop fw tbl undef inp s) = sd s
       \<and> serial (loop fw tbl undef inp s)
           = serial s @ [''Recording started: '' @ log_name fw (now_start inp),
                         cycle_record fw tbl undef inp]"
  using assms by (simp add: loop_fields checkToggle_start File_println_def)

theorem open_failure_stays_active_witness:
  "triggered (idle\<lparr>triggered := True\<rparr>) \<and> \<not> logging (idle\<lparr>triggered := True\<rparr>)
   \<and> \<not> open_ok (sample_inputs False)
   \<and> logging (loop SecondSketch sampleTable (\<lambda>x. 0) (sample_inputs False)
        (idle\<lparr>triggered := True\<rparr>))
   \<and> myFile (loop SecondSketch sampleTable (\<lambda>x. 0) (sample_inputs False)
        (idle\<lparr>triggered := True\<rparr>)) = None
   \<and> sd (loop SecondSketch sampleTable (\<lambda>x. 0) (sample_inputs False)
        (idle\<lparr>triggered := True\<rparr>)) = sd (idle\<lparr>triggered := True\<rparr>)"
  using open_failure_stays_active [of "idle\<lparr>triggered := True\<rparr>" "sample_inputs False"
      SecondSketch sampleTable "\<lambda>x. 0"]
  by (simp add: idle_def sample_inputs_fields)

text \<open>
  Claim C5.  Any number \<open>n \<ge> 1\<close> of presses before a pass of \<open>loop\<close> produces exactly one
  transition in that pass: the session state is inverted once, one notification is
  printed, and the flag is clear afterwards.  A pass with no pending toggle makes no
  transition: state and handle are unchanged and only the record is printed.
\<close>

theorem toggle_coalescing:
  "(0 < n \<longrightarrow>
      logging (loop fw tbl undef inp (presses fw n s)) = (\<not> logging s)
    \<and> \<not> triggered (loop fw tbl undef inp (presses fw n s))
    \<and> serial (loop fw tbl undef inp (presses fw n s))
        = serial s @ [if logging s then ''Recording stopped''
                      else ''Recording started: '' @ log_name fw (now_start inp),
                      cycle_record fw tbl undef inp])
   \<and> (\<not> triggered s \<longrightarrow>
        logging (loop fw tbl undef inp s) = logging s
      \<and> myFile (loop fw tbl undef inp s) = myFile s
      \<and> \<not> triggered (loop fw tbl undef inp s)
      \<and> serial (loop fw tbl undef inp s) = serial s @ [cycle_record fw tbl undef inp])"
proof -
  have a: "logging (loop fw tbl undef inp (presses fw n s)) = (\<not> logging s)
    \<and> \<not> triggered (loop fw tbl undef inp (presses fw n s))
    \<and> serial (loop fw tbl undef inp (presses fw n s))
        = serial s @ [if logging s then ''Recording stopped''
                      else ''Recording started: '' @ log_name fw (now_start inp),
                      cycle_record fw tbl undef inp]" if "0 < n"
  proof (cases "logging s")
    case True
    with that show ?thesis
      by (simp add: loop_fields checkToggle_stop presses_fields)
  next
    case False
    with that show ?thesis
      by (simp add: loop_fields checkToggle_start presses_fields)
  qed
  have b: "logging (loop fw tbl undef inp s) = logging s
      \<and> myFile (loop fw tbl undef inp s) = myFile s
      \<and> \<not> triggered (loop fw tbl undef inp s)
      \<and> serial (loop fw tbl undef inp s) = serial s @ [cycle_record fw tbl undef inp]"
    if "\<not> triggered s"
    using that by (simp add: loop_fields checkToggle_idle)
  from a b show ?thesis by blast
qed

theorem toggle_coalescing_witness:
  "(0::nat) < 3
   \<and> logging (loop TemperatureLogger sampleTable (\<lambda>x. 0) (sample_inputs True)
        (presses TemperatureLogger 3 idle)) = (\<not> logging idle)
   \<and> serial (loop TemperatureLogger sampleTable (\<lambda>x. 0) (sample_inputs True)
        (presses TemperatureLogger 3 idle))
       = [''Recording started: 15T1405.csv'', ''14:05:09,-78.50,-78.50,-78.50'']
   \<and> \<not> triggered idle
   \<and> logging (loop TemperatureLogger sampleTable (\<lambda>x. 0) (sample_inputs True) idle)
       = logging idle
   \<and> serial (loop TemperatureLogger sampleTable (\<lambda>x. 0) (sample_inputs True) idle)
       = [''14:05:09,-78.50,-78.50,-78.50'']"
  using toggle_coalescing [of 3 TemperatureLogger sampleTable "\<lambda>x. 0" "sample_inputs True" idle]
  by (simp add: sample_record sample_name sample_inputs_fields) (simp add: idle_def)



end
